theory Spec2Isabelle
  imports Complex_Main
begin

section \<open>The scoped image carousel (image-carousel-scoped.ts)\<close>

text \<open>
  A shallow embedding of the controller that \<^verbatim>\<open>initCarousel\<close> builds for one root element.
  The closure variables (\<^verbatim>\<open>projects\<close>, \<^verbatim>\<open>currentProject\<close>, \<^verbatim>\<open>slides\<close>,
  \<^verbatim>\<open>currentSlide\<close>, \<^verbatim>\<open>lastFocused\<close>, \<^verbatim>\<open>startX\<close>, \<^verbatim>\<open>startY\<close>, \<^verbatim>\<open>touching\<close>) and the
  parts of the document that the functions write are the fields of one record, which every
  function takes and returns updated. A thrown \<^verbatim>\<open>TypeError\<close> is a value of the result.
\<close>

subsection \<open>Numbers\<close>

text \<open>
  Slide indices are JavaScript numbers that hold integers: \<^verbatim>\<open>currentSlide\<close> starts at 0 and is
  only ever assigned a result of \<^verbatim>\<open>clamp\<close> on integers. They are modelled as \<open>int\<close>
  (the values \<^verbatim>\<open>0\<close> and \<^verbatim>\<open>-0\<close> are not told apart: they index the same array element,
  compare equal under \<^verbatim>\<open>===\<close> and print alike).

  The remainder operator \<^verbatim>\<open>%\<close> of JavaScript truncates: the result takes the sign of the
  dividend. On doubles it is exact; the sum \<^verbatim>\<open>i + len\<close> is a sum of doubles, which is the
  integer sum as long as the operands and the sum have magnitude at most \<open>2^53\<close>. On that
  range \<open>clamp\<close> below is the code's; slide counts and the indices the controller
  passes lie far inside it.
\<close>

definition js_rem :: "int \<Rightarrow> int \<Rightarrow> int" where
  "js_rem a b = sgn a * (\<bar>a\<bar> mod \<bar>b\<bar>)"

text \<open>\<^verbatim>\<open>const clamp = (i, len) => (len ? (i + len) % len : 0)\<close>\<close>

definition clamp :: "int \<Rightarrow> int \<Rightarrow> int" where
  "clamp i len = (if len \<noteq> 0 then js_rem (i + len) len else 0)"

text \<open>
  The argument of \<^verbatim>\<open>openProject\<close> comes from \<^verbatim>\<open>Number(...)\<close> and may be any number.
  \<open>NonInteger\<close> stands for \<^verbatim>\<open>NaN\<close>, the infinities and the fractions: as a property key
  of an array none of them names an element.
\<close>

datatype number = Integer int | NonInteger

text \<open>Reading \<^verbatim>\<open>xs[k]\<close>: \<^verbatim>\<open>undefined\<close> (here \<open>None\<close>) outside the array.\<close>

definition at_index :: "'a list \<Rightarrow> int \<Rightarrow> 'a option" where
  "at_index xs k = (if 0 \<le> k \<and> k < int (length xs) then Some (xs ! nat k) else None)"

fun at_number :: "'a list \<Rightarrow> number \<Rightarrow> 'a option" where
  "at_number xs (Integer k) = at_index xs k"
| "at_number xs NonInteger = None"

text \<open>Decimal notation, as a template literal prints an integer.\<close>

definition digit_char :: "nat \<Rightarrow> char" where
  "digit_char d = ''0123456789'' ! d"

fun show_nat :: "nat \<Rightarrow> string" where
  "show_nat n = (if n < 10 then [digit_char n] else show_nat (n div 10) @ [digit_char (n mod 10)])"

declare show_nat.simps [simp del]

definition show_int :: "int \<Rightarrow> string" where
  "show_int i = (if i < 0 then CHR ''-'' # show_nat (nat (- i)) else show_nat (nat i))"

subsection \<open>Data\<close>

text \<open>
  \<^verbatim>\<open>type SubImg = { src: string; alt?: string; detail?: string }\<close>,
  \<^verbatim>\<open>type Project = { src: string; alt: string; detail: string; gallery?: SubImg[] }\<close>,
  \<^verbatim>\<open>type Slide = { src: string; alt: string; detail?: string }\<close>.
  An optional field is an \<open>option\<close>; \<open>None\<close> is the field being absent (or \<^verbatim>\<open>null\<close>
  in the payload, which \<^verbatim>\<open>??\<close> treats alike).
\<close>

record SubImg =
  sub_src :: string
  sub_alt :: "string option"
  sub_detail :: "string option"

record Project =
  proj_src :: string
  proj_alt :: string
  proj_detail :: string
  proj_gallery :: "SubImg list option"

record Slide =
  slide_src :: string
  slide_alt :: string
  slide_detail :: "string option"

text \<open>One button of the thumbnail strip, as \<^verbatim>\<open>renderThumbs\<close> builds it.\<close>

record Thumb =
  thumb_label :: string
  thumb_src :: string
  thumb_alt :: string
  thumb_highlight :: bool
  thumb_target :: int

text \<open>The elements that may hold the focus: the close button, or an element of the host page.\<close>

datatype element = CloseBtn | HostElement nat

datatype error = TypeError

record state =
  projects :: "Project list"
  currentProject :: number
  slides :: "Slide list"
  currentSlide :: int
  lastFocused :: "element option"
  startX :: real
  startY :: real
  touching :: bool
  modal_hidden :: bool
  modal_aria_hidden :: string
  html_overflow :: string
  body_overflow :: string
  activeElement :: "element option"
  img_opacity :: string
  frames :: "Slide list"
  thumbs :: "Thumb list"
  progress :: "string option"
  preloads :: "string list"

text \<open>
  \<open>modal_hidden\<close> is the class \<^verbatim>\<open>hidden\<close> of the modal; \<open>progress\<close> is the text of the
  progress element, \<open>None\<close> when the page has no such element (it is not one of the required
  nodes); \<open>frames\<close> are the callbacks handed to \<^verbatim>\<open>requestAnimationFrame\<close> and not yet run,
  each with the slide it has captured; \<open>preloads\<close> are the sources given to \<^verbatim>\<open>new Image()\<close>.
\<close>

datatype outcome = Returned state | Raised error state

subsection \<open>Helpers\<close>

definition lockScroll :: "bool \<Rightarrow> state \<Rightarrow> state" where
  "lockScroll on st =
     st\<lparr>html_overflow := (if on then ''hidden'' else ''''),
        body_overflow := (if on then ''hidden'' else '''')\<rparr>"

definition buildSlides :: "Project \<Rightarrow> Slide list" where
  "buildSlides p =
     (let main = \<lparr>slide_src = proj_src p, slide_alt = proj_alt p,
                  slide_detail = Some (proj_detail p)\<rparr>;
          extras = map (\<lambda>g. \<lparr>slide_src = sub_src g,
                              slide_alt = (case sub_alt g of None \<Rightarrow> proj_alt p | Some a \<Rightarrow> a),
                              slide_detail = (case sub_detail g of None \<Rightarrow> Some (proj_detail p)
                                              | Some d \<Rightarrow> Some d)\<rparr>)
                       (case proj_gallery p of None \<Rightarrow> [] | Some gs \<Rightarrow> gs)
      in main # extras)"

text \<open>
  \<^verbatim>\<open>preloadNeighbors\<close>: for each of the two neighbours, in order, an image is created when
  the slide exists and its source is a non-empty string.
\<close>

definition preload_one :: "int \<Rightarrow> state \<Rightarrow> state" where
  "preload_one k st =
     (case at_index (slides st) k of
        None \<Rightarrow> st
      | Some s \<Rightarrow> if slide_src s \<noteq> '''' then st\<lparr>preloads := preloads st @ [slide_src s]\<rparr> else st)"

definition preloadNeighbors :: "int \<Rightarrow> state \<Rightarrow> state" where
  "preloadNeighbors i st =
     (let len = int (length (slides st));
          idxs = [clamp (i - 1) len, clamp (i + 1) len]
      in fold preload_one idxs st)"

definition updateProgress :: "state \<Rightarrow> state" where
  "updateProgress st =
     (case progress st of
        None \<Rightarrow> st
      | Some _ \<Rightarrow>
          st\<lparr>progress := Some (if length (slides st) > 1
                                then show_int (currentSlide st + 1) @ '' / ''
                                       @ show_nat (length (slides st))
                                else '''')\<rparr>)"

definition make_thumb :: "int \<Rightarrow> int \<Rightarrow> Slide \<Rightarrow> Thumb" where
  "make_thumb cur i s =
     \<lparr>thumb_label = ''Go to slide '' @ show_int (i + 1),
      thumb_src = slide_src s,
      thumb_alt = (if slide_alt s \<noteq> '''' then slide_alt s else ''Slide '' @ show_int (i + 1)),
      thumb_highlight = (i = cur),
      thumb_target = i\<rparr>"

definition renderThumbs :: "state \<Rightarrow> state" where
  "renderThumbs st =
     st\<lparr>thumbs := map (\<lambda>(i, s). make_thumb (currentSlide st) (int i) s)
                       (enumerate 0 (slides st))\<rparr>"

subsection \<open>Navigation\<close>

definition showSlide :: "int \<Rightarrow> state \<Rightarrow> state" where
  "showSlide index st =
     (let safe = clamp index (int (length (slides st)))
      in case at_index (slides st) safe of
           None \<Rightarrow> st
         | Some s \<Rightarrow>
             (let st1 = st\<lparr>currentSlide := safe\<rparr>;
                  st2 = st1\<lparr>img_opacity := ''0'', frames := frames st1 @ [s]\<rparr>;
                  st3 = renderThumbs st2;
                  st4 = updateProgress st3
              in preloadNeighbors (currentSlide st4) st4))"

text \<open>
  \<^verbatim>\<open>openProject\<close>: \<^verbatim>\<open>buildSlides(projects[currentProject])\<close> reads \<^verbatim>\<open>p.src\<close>, which throws
  a \<^verbatim>\<open>TypeError\<close> when the project is \<^verbatim>\<open>undefined\<close>; the assignment to
  \<^verbatim>\<open>currentProject\<close> has happened by then.
\<close>

definition openProject :: "number \<Rightarrow> state \<Rightarrow> outcome" where
  "openProject projectIndex st =
     (let st1 = st\<lparr>currentProject := projectIndex\<rparr>
      in case at_number (projects st1) (currentProject st1) of
           None \<Rightarrow> Raised TypeError st1
         | Some p \<Rightarrow>
             (let st2 = st1\<lparr>slides := buildSlides p\<rparr>;
                  st3 = st2\<lparr>currentSlide := 0\<rparr>;
                  st4 = st3\<lparr>modal_hidden := False, modal_aria_hidden := ''false''\<rparr>;
                  st5 = lockScroll True st4;
                  st6 = st5\<lparr>lastFocused := activeElement st5\<rparr>;
                  st7 = st6\<lparr>activeElement := Some CloseBtn\<rparr>
              in Returned (showSlide 0 st7)))"

definition closeModal :: "state \<Rightarrow> state" where
  "closeModal st =
     (let st1 = st\<lparr>modal_hidden := True, modal_aria_hidden := ''true''\<rparr>;
          st2 = lockScroll False st1
      in case lastFocused st2 of
           None \<Rightarrow> st2
         | Some e \<Rightarrow> st2\<lparr>activeElement := Some e\<rparr>)"

definition "next" :: "state \<Rightarrow> state" where
  "next st = showSlide (currentSlide st + 1) st"

definition prev :: "state \<Rightarrow> state" where
  "prev st = showSlide (currentSlide st - 1) st"

subsection \<open>Input handlers\<close>

text \<open>
  The click handler of an opener: \<^verbatim>\<open>openProject(Number(raw ?? 0))\<close>, where \<^verbatim>\<open>raw\<close> is
  the \<^verbatim>\<open>data-index\<close> attribute, \<^verbatim>\<open>null\<close> (here \<open>None\<close>) when absent. The built-in
  conversion of a string to a number is the parameter \<open>Number\<close>.
\<close>

definition opener_click :: "(string \<Rightarrow> number) \<Rightarrow> string option \<Rightarrow> state \<Rightarrow> outcome" where
  "opener_click Number raw st =
     openProject (case raw of None \<Rightarrow> Integer 0 | Some s \<Rightarrow> Number s) st"

datatype command = Next | Prev

definition run_command :: "command option \<Rightarrow> state \<Rightarrow> state" where
  "run_command c st = (case c of None \<Rightarrow> st | Some Next \<Rightarrow> next st | Some Prev \<Rightarrow> prev st)"

text \<open>
  Touch coordinates are doubles, here the real numbers they denote. Absolute value and
  comparison of doubles are exact, and 40 is a double; the subtraction of two doubles
  rounds its result, and is the parameter \<open>sub\<close> of the handler.

  The test of the \<^verbatim>\<open>touchend\<close> handler, with the call it selects:
\<close>

definition swipe_command :: "real \<Rightarrow> real \<Rightarrow> command option" where
  "swipe_command dx dy =
     (if \<bar>dx\<bar> > 40 \<and> \<bar>dx\<bar> > \<bar>dy\<bar> then (if dx < 0 then Some Next else Some Prev) else None)"

definition touchstart :: "real \<Rightarrow> real \<Rightarrow> state \<Rightarrow> state" where
  "touchstart x y st = st\<lparr>touching := True, startX := x, startY := y\<rparr>"

definition touchend :: "(real \<Rightarrow> real \<Rightarrow> real) \<Rightarrow> real \<Rightarrow> real \<Rightarrow> state \<Rightarrow> state" where
  "touchend sub x y st =
     (if \<not> touching st then st
      else let st1 = st\<lparr>touching := False\<rparr>;
               dx = sub x (startX st1);
               dy = sub y (startY st1)
           in run_command (swipe_command dx dy) st1)"

definition keydown :: "string \<Rightarrow> state \<Rightarrow> state" where
  "keydown key st =
     (if modal_hidden st then st
      else let st1 = (if key = ''Escape'' then closeModal st else st);
               st2 = (if key = ''ArrowRight'' then next st1 else st1)
           in if key = ''ArrowLeft'' then prev st2 else st2)"

subsection \<open>The states a controller can be in\<close>

text \<open>
  The state right after \<^verbatim>\<open>initCarousel\<close> has bound its handlers: the closure variables hold
  their initial values and nothing has been queued; what the host page shows (the modal,
  the thumbnail strip, the progress text) is whatever its markup says.
\<close>

definition initial :: "state \<Rightarrow> bool" where
  "initial st \<longleftrightarrow>
     currentProject st = Integer 0 \<and> slides st = [] \<and> currentSlide st = 0 \<and>
     lastFocused st = None \<and> startX st = 0 \<and> startY st = 0 \<and> \<not> touching st \<and>
     frames st = [] \<and> preloads st = []"

text \<open>
  The states reached from an initial one by calls of the controller's functions and
  handlers, in any order and with any arguments; a call of \<^verbatim>\<open>openProject\<close> that throws
  leaves the state it had reached.
\<close>

inductive reachable :: "state \<Rightarrow> bool" where
  r_initial: "initial st \<Longrightarrow> reachable st"
| r_openProject: "reachable st \<Longrightarrow> openProject k st = Returned st' \<Longrightarrow> reachable st'"
| r_openProject_raised: "reachable st \<Longrightarrow> openProject k st = Raised e st' \<Longrightarrow> reachable st'"
| r_showSlide: "reachable st \<Longrightarrow> reachable (showSlide i st)"
| r_next: "reachable st \<Longrightarrow> reachable (next st)"
| r_prev: "reachable st \<Longrightarrow> reachable (prev st)"
| r_closeModal: "reachable st \<Longrightarrow> reachable (closeModal st)"
| r_keydown: "reachable st \<Longrightarrow> reachable (keydown key st)"
| r_touchstart: "reachable st \<Longrightarrow> reachable (touchstart x y st)"
| r_touchend: "reachable st \<Longrightarrow> reachable (touchend sub x y st)"

text \<open>
  The progress text in the words of the specification: \<^verbatim>\<open>"<currentSlide+1> / <total>"\<close>
  when more than one slide exists, and the empty string otherwise.
\<close>

definition spec_progress_text :: "int \<Rightarrow> nat \<Rightarrow> string" where
  "spec_progress_text cur n =
     (if n > 1 then show_int (cur + 1) @ '' / '' @ show_nat n else '''')"

text \<open>
  What holds of the navigation state in every reachable state: without slides the index is
  still 0; with slides the index is in range and the progress element, if the page has one,
  shows the position.
\<close>

definition nav_inv :: "state \<Rightarrow> bool" where
  "nav_inv st \<longleftrightarrow>
     (if slides st = [] then currentSlide st = 0
      else 0 \<le> currentSlide st \<and> currentSlide st < int (length (slides st)) \<and>
           (progress st = None \<or>
            progress st = Some (spec_progress_text (currentSlide st) (length (slides st)))))"

text \<open>The wrapped index names a slide or it does not; \<^verbatim>\<open>showSlide\<close> acts only if it does.\<close>

definition shown :: "int \<Rightarrow> state \<Rightarrow> bool" where
  "shown i st \<longleftrightarrow>
     0 \<le> clamp i (int (length (slides st))) \<and>
     clamp i (int (length (slides st))) < int (length (slides st))"

text \<open>\<^verbatim>\<open>currentSlide\<close> names a slide, if there is any.\<close>

definition valid_index :: "state \<Rightarrow> bool" where
  "valid_index st \<longleftrightarrow>
     slides st = [] \<or> (0 \<le> currentSlide st \<and> currentSlide st < int (length (slides st)))"

subsection \<open>A sample page\<close>

definition gallery_project :: Project where
  "gallery_project =
     \<lparr>proj_src = ''a.jpg'', proj_alt = ''Alpha'', proj_detail = ''About alpha'',
      proj_gallery = Some [\<lparr>sub_src = ''a1.jpg'', sub_alt = None, sub_detail = Some ''<b>One</b>''\<rparr>,
                           \<lparr>sub_src = ''a2.jpg'', sub_alt = Some ''Second'', sub_detail = None\<rparr>]\<rparr>"

definition plain_project :: Project where
  "plain_project =
     \<lparr>proj_src = ''b.jpg'', proj_alt = ''Beta'', proj_detail = ''About beta'',
      proj_gallery = None\<rparr>"

definition five_project :: Project where
  "five_project =
     \<lparr>proj_src = ''c.jpg'', proj_alt = ''Gamma'', proj_detail = ''About gamma'',
      proj_gallery = Some (map (\<lambda>s. \<lparr>sub_src = s, sub_alt = None, sub_detail = None\<rparr>)
                               [''c1.jpg'', ''c2.jpg'', ''c3.jpg'', ''c4.jpg''])\<rparr>"

text \<open>A page whose payload is the given list and whose progress element holds the given text.\<close>

definition sample_page :: "Project list \<Rightarrow> string option \<Rightarrow> state" where
  "sample_page ps ptext =
     \<lparr>projects = ps, currentProject = Integer 0, slides = [], currentSlide = 0,
      lastFocused = None, startX = 0, startY = 0, touching = False,
      modal_hidden = True, modal_aria_hidden = ''true'', html_overflow = '''',
      body_overflow = '''', activeElement = Some (HostElement 0), img_opacity = ''1'',
      frames = [], thumbs = [], progress = ptext, preloads = []\<rparr>"

text \<open>
  The subtraction of doubles on the coordinates of the samples: two integers of magnitude
  at most \<open>2^53\<close> whose difference is again in that range have exactly that difference.
  (Other arguments do not occur in the samples; the value 0 given for them means nothing.)
\<close>

definition integer_sub :: "real \<Rightarrow> real \<Rightarrow> real" where
  "integer_sub a b =
     (if of_int \<lfloor>a\<rfloor> = a \<and> of_int \<lfloor>b\<rfloor> = b \<and>
         \<bar>a\<bar> \<le> 2 ^ 53 \<and> \<bar>b\<bar> \<le> 2 ^ 53 \<and> \<bar>a - b\<bar> \<le> 2 ^ 53
      then a - b else 0)"

text \<open>The state after a call of \<^verbatim>\<open>openProject\<close> that returns; the state is kept when it throws.\<close>

definition opened :: "number \<Rightarrow> state \<Rightarrow> state" where
  "opened k st = (case openProject k st of Returned st' \<Rightarrow> st' | Raised e st' \<Rightarrow> st')"

section \<open>Facts about the helpers\<close>

lemma clamp_zero: "clamp i 0 = 0"
  by (simp add: clamp_def)

lemma clamp_mod: "0 < len \<Longrightarrow> - len \<le> i \<Longrightarrow> clamp i len = i mod len"
proof (cases "i + len = 0")
  case True
  then have "i = - len" by simp
  then show ?thesis by (simp add: clamp_def js_rem_def)
next
  case False
  assume "0 < len" "- len \<le> i"
  with False have "0 < i + len" by simp
  then show ?thesis using \<open>0 < len\<close> by (simp add: clamp_def js_rem_def)
qed

lemma preload_one_fields:
  "slides (preload_one k st) = slides st"
  "currentSlide (preload_one k st) = currentSlide st"
  "progress (preload_one k st) = progress st"
  "projects (preload_one k st) = projects st"
  "currentProject (preload_one k st) = currentProject st"
  by (simp_all add: preload_one_def split: option.splits)

lemma preloadNeighbors_fields:
  "slides (preloadNeighbors i st) = slides st"
  "currentSlide (preloadNeighbors i st) = currentSlide st"
  "progress (preloadNeighbors i st) = progress st"
  "projects (preloadNeighbors i st) = projects st"
  "currentProject (preloadNeighbors i st) = currentProject st"
  by (simp_all add: preloadNeighbors_def Let_def preload_one_fields)

lemma updateProgress_fields:
  "slides (updateProgress st) = slides st"
  "currentSlide (updateProgress st) = currentSlide st"
  "projects (updateProgress st) = projects st"
  "currentProject (updateProgress st) = currentProject st"
  by (simp_all add: updateProgress_def split: option.splits)

lemma updateProgress_progress:
  "progress (updateProgress st) =
     (if progress st = None then None
      else Some (spec_progress_text (currentSlide st) (length (slides st))))"
  by (simp add: updateProgress_def spec_progress_text_def split: option.splits)

lemma renderThumbs_fields:
  "slides (renderThumbs st) = slides st"
  "currentSlide (renderThumbs st) = currentSlide st"
  "progress (renderThumbs st) = progress st"
  "projects (renderThumbs st) = projects st"
  "currentProject (renderThumbs st) = currentProject st"
  by (simp_all add: renderThumbs_def)

lemmas render_fields =
  preloadNeighbors_fields updateProgress_fields updateProgress_progress renderThumbs_fields

lemma showSlide_not_shown: "\<not> shown i st \<Longrightarrow> showSlide i st = st"
  by (auto simp: showSlide_def shown_def at_index_def)

lemma showSlide_slides: "slides (showSlide i st) = slides st"
  by (simp add: showSlide_def Let_def render_fields split: option.splits)

lemma showSlide_projects: "projects (showSlide i st) = projects st"
  by (simp add: showSlide_def Let_def render_fields split: option.splits)

lemma showSlide_currentProject: "currentProject (showSlide i st) = currentProject st"
  by (simp add: showSlide_def Let_def render_fields split: option.splits)

lemma showSlide_currentSlide:
  "currentSlide (showSlide i st) =
     (if shown i st then clamp i (int (length (slides st))) else currentSlide st)"
  by (simp add: showSlide_def Let_def render_fields at_index_def shown_def)

lemma showSlide_progress:
  "progress (showSlide i st) =
     (if shown i st \<and> progress st \<noteq> None
      then Some (spec_progress_text (clamp i (int (length (slides st)))) (length (slides st)))
      else progress st)"
  by (simp add: showSlide_def Let_def render_fields at_index_def shown_def)

lemma shown_in_range:
  "slides st \<noteq> [] \<Longrightarrow> - int (length (slides st)) \<le> i \<Longrightarrow> shown i st"
  by (simp add: shown_def clamp_mod)

lemma not_shown_empty: "slides st = [] \<Longrightarrow> \<not> shown i st"
  by (simp add: shown_def)

lemma buildSlides_nonempty: "buildSlides p \<noteq> []"
  by (simp add: buildSlides_def Let_def)

lemma openProject_Some:
  "at_number (projects st) k = Some p \<Longrightarrow>
   openProject k st =
     Returned (showSlide 0
       (st\<lparr>currentProject := k, slides := buildSlides p, currentSlide := 0,
           modal_hidden := False, modal_aria_hidden := ''false'',
           html_overflow := ''hidden'', body_overflow := ''hidden'',
           lastFocused := activeElement st, activeElement := Some CloseBtn\<rparr>))"
  by (simp add: openProject_def Let_def lockScroll_def)

lemma openProject_None:
  "at_number (projects st) k = None \<Longrightarrow>
   openProject k st = Raised TypeError (st\<lparr>currentProject := k\<rparr>)"
  by (simp add: openProject_def Let_def)

lemma openProject_opened:
  "at_number (projects st) k = Some p \<Longrightarrow> openProject k st = Returned (opened k st)"
  by (simp add: opened_def openProject_Some)

lemma closeModal_eq:
  "closeModal st =
     st\<lparr>modal_hidden := True, modal_aria_hidden := ''true'', html_overflow := '''',
        body_overflow := '''',
        activeElement := (case lastFocused st of None \<Rightarrow> activeElement st | Some e \<Rightarrow> Some e)\<rparr>"
  by (simp add: closeModal_def Let_def lockScroll_def split: option.splits)

section \<open>The navigation invariant\<close>

lemma nav_inv_showSlide: "nav_inv st \<Longrightarrow> nav_inv (showSlide i st)"
proof (cases "shown i st")
  case False
  assume "nav_inv st"
  with False show ?thesis by (simp add: showSlide_not_shown)
next
  case True
  then have "slides st \<noteq> []" using not_shown_empty by blast
  with True show ?thesis
    by (simp add: nav_inv_def showSlide_slides showSlide_currentSlide showSlide_progress
        shown_def)
qed

lemma nav_inv_next: "nav_inv st \<Longrightarrow> nav_inv (next st)"
  by (simp add: next_def nav_inv_showSlide)

lemma nav_inv_prev: "nav_inv st \<Longrightarrow> nav_inv (prev st)"
  by (simp add: prev_def nav_inv_showSlide)

lemma nav_inv_closeModal: "nav_inv st \<Longrightarrow> nav_inv (closeModal st)"
  by (simp add: closeModal_eq nav_inv_def)

lemma nav_inv_openProject_Returned:
  assumes "openProject k st = Returned st'"
  shows "nav_inv st'"
proof (cases "at_number (projects st) k")
  case None
  with assms show ?thesis by (simp add: openProject_None)
next
  case (Some p)
  let ?st = "st\<lparr>currentProject := k, slides := buildSlides p, currentSlide := 0,
           modal_hidden := False, modal_aria_hidden := ''false'',
           html_overflow := ''hidden'', body_overflow := ''hidden'',
           lastFocused := activeElement st, activeElement := Some CloseBtn\<rparr>"
  from Some assms have st': "st' = showSlide 0 ?st" by (simp add: openProject_Some)
  have sh: "shown 0 ?st" by (rule shown_in_range) (simp_all add: buildSlides_nonempty)
  have cl: "clamp 0 (int (length (buildSlides p))) = 0"
    by (simp add: clamp_mod buildSlides_nonempty)
  show ?thesis
    unfolding st' using sh cl
    by (simp add: nav_inv_def showSlide_slides showSlide_currentSlide showSlide_progress
        buildSlides_nonempty)
qed

lemma nav_inv_openProject_Raised:
  assumes "nav_inv st" "openProject k st = Raised e st'"
  shows "nav_inv st'"
proof (cases "at_number (projects st) k")
  case None
  with assms show ?thesis by (auto simp: openProject_None nav_inv_def)
next
  case (Some p)
  with assms show ?thesis by (simp add: openProject_Some)
qed

lemma nav_inv_keydown: "nav_inv st \<Longrightarrow> nav_inv (keydown key st)"
  by (simp add: keydown_def Let_def nav_inv_closeModal nav_inv_next nav_inv_prev)

lemma nav_inv_touchstart: "nav_inv st \<Longrightarrow> nav_inv (touchstart x y st)"
  by (simp add: touchstart_def nav_inv_def)

lemma nav_inv_run_command: "nav_inv st \<Longrightarrow> nav_inv (run_command c st)"
  by (simp add: run_command_def nav_inv_next nav_inv_prev split: option.splits command.splits)

lemma nav_inv_touchend: "nav_inv st \<Longrightarrow> nav_inv (touchend sub x y st)"
proof -
  assume inv: "nav_inv st"
  then have "nav_inv (st\<lparr>touching := False\<rparr>)" by (simp add: nav_inv_def)
  then show ?thesis using inv by (simp add: touchend_def Let_def nav_inv_run_command)
qed

lemma nav_inv_initial: "initial st \<Longrightarrow> nav_inv st"
  by (simp add: initial_def nav_inv_def)

lemma reachable_nav_inv: "reachable st \<Longrightarrow> nav_inv st"
proof (induction rule: reachable.induct)
  case (r_initial st)
  then show ?case by (rule nav_inv_initial)
next
  case (r_openProject st k st')
  then show ?case by (simp add: nav_inv_openProject_Returned)
next
  case (r_openProject_raised st k e st')
  then show ?case using nav_inv_openProject_Raised by blast
qed (simp_all add: nav_inv_showSlide nav_inv_next nav_inv_prev nav_inv_closeModal
      nav_inv_keydown nav_inv_touchstart nav_inv_touchend)

section \<open>Facts about the sample page\<close>

lemma opened_fields:
  assumes "at_number (projects st) k = Some p"
  shows "slides (opened k st) = buildSlides p" "currentSlide (opened k st) = 0"
    "currentProject (opened k st) = k" "projects (opened k st) = projects st"
proof -
  let ?st = "st\<lparr>currentProject := k, slides := buildSlides p, currentSlide := 0,
           modal_hidden := False, modal_aria_hidden := ''false'',
           html_overflow := ''hidden'', body_overflow := ''hidden'',
           lastFocused := activeElement st, activeElement := Some CloseBtn\<rparr>"
  have o: "opened k st = showSlide 0 ?st" using assms by (simp add: opened_def openProject_Some)
  have sh: "shown 0 ?st" by (rule shown_in_range) (simp_all add: buildSlides_nonempty)
  have cl: "clamp 0 (int (length (buildSlides p))) = 0"
    by (simp add: clamp_mod buildSlides_nonempty)
  show "slides (opened k st) = buildSlides p" by (simp add: o showSlide_slides)
  show "currentSlide (opened k st) = 0" using sh cl by (simp add: o showSlide_currentSlide)
  show "currentProject (opened k st) = k" by (simp add: o showSlide_currentProject)
  show "projects (opened k st) = projects st" by (simp add: o showSlide_projects)
qed

lemma sample_lookup:
  "at_number (projects (sample_page [gallery_project, plain_project] t)) (Integer 0)
     = Some gallery_project"
  "at_number (projects (sample_page [gallery_project, plain_project] t)) (Integer 1)
     = Some plain_project"
  "at_number (projects (sample_page [five_project] t)) (Integer 0) = Some five_project"
  by (simp_all add: sample_page_def at_index_def)

lemma sample_lengths:
  "length (buildSlides gallery_project) = 3" "length (buildSlides plain_project) = 1"
  "length (buildSlides five_project) = 5"
  by (simp_all add: buildSlides_def gallery_project_def plain_project_def five_project_def)

lemma opened_progress:
  assumes "at_number (projects st) k = Some p"
  shows "progress (opened k st) =
           (if progress st = None then None
            else Some (spec_progress_text 0 (length (buildSlides p))))"
proof -
  let ?st = "st\<lparr>currentProject := k, slides := buildSlides p, currentSlide := 0,
           modal_hidden := False, modal_aria_hidden := ''false'',
           html_overflow := ''hidden'', body_overflow := ''hidden'',
           lastFocused := activeElement st, activeElement := Some CloseBtn\<rparr>"
  have o: "opened k st = showSlide 0 ?st" using assms by (simp add: opened_def openProject_Some)
  have sh: "shown 0 ?st" by (rule shown_in_range) (simp_all add: buildSlides_nonempty)
  have cl: "clamp 0 (int (length (buildSlides p))) = 0"
    by (simp add: clamp_mod buildSlides_nonempty)
  show ?thesis using sh cl by (simp add: o showSlide_progress)
qed

lemma sample_reachable: "reachable (sample_page ps t)"
  by (rule r_initial) (simp add: initial_def sample_page_def)

section \<open>The wrap function\<close>

text \<open>
  C1. The claim: for every integer \<open>i\<close> and every slide count \<open>len > 0\<close>, \<^verbatim>\<open>clamp(i, len)\<close>
  lies in \<open>[0, len)\<close> and is periodic in \<open>i\<close> with period \<open>len\<close>. The code adds \<open>len\<close>
  once before the truncating remainder, so this fails below \<open>-len\<close>: \<^verbatim>\<open>clamp(-7, 5)\<close>
  is \<open>-2\<close>, while \<^verbatim>\<open>clamp(-2, 5)\<close> is \<open>3\<close>.
\<close>

theorem clamp_below_minus_len_counterexample:
  "clamp (- 7) 5 = - 2 \<and> \<not> (0 \<le> clamp (- 7) 5 \<and> clamp (- 7) 5 < 5) \<and>
   clamp (- 7 + 5) 5 \<noteq> clamp (- 7) 5"
  by (simp add: clamp_def js_rem_def)

text \<open>
  C1, as the code has it: for every slide count \<open>0 < len \<le> 2^53\<close> and every integer
  \<open>i\<close> with \<open>-len \<le> i\<close> and \<open>i + len \<le> 2^53\<close> (so that the sum the code forms is the
  integer sum), \<^verbatim>\<open>clamp(i, len)\<close> lies in \<open>[0, len)\<close> and is the mathematical
  \<open>i mod len\<close>; and it does not change when a multiple \<open>k * len\<close>, \<open>k \<ge> 0\<close>, is added
  to \<open>i\<close>, as long as \<open>i + k * len + len \<le> 2^53\<close> as well.
\<close>

theorem clamp_wraps_from_minus_len:
  assumes "0 < len" and "len \<le> 2 ^ 53" and "- len \<le> i" and "i + len \<le> 2 ^ 53"
  shows "0 \<le> clamp i len \<and> clamp i len < len \<and> clamp i len = i mod len \<and>
         (i + int k * len + len \<le> 2 ^ 53 \<longrightarrow> clamp (i + int k * len) len = clamp i len)"
proof -
  have "0 \<le> int k * len" using assms(1) by simp
  then have "- len \<le> i + int k * len" using assms(3) by linarith
  then have "clamp (i + int k * len) len = (i + int k * len) mod len"
    using assms(1) by (rule clamp_mod [rotated])
  then show ?thesis using assms(1,3) by (simp add: clamp_mod)
qed

theorem clamp_wraps_from_minus_len_witness:
  "(0::int) < 5 \<and> (5::int) \<le> 2 ^ 53 \<and> - 5 \<le> (- 1::int) \<and> (- 1::int) + 5 \<le> 2 ^ 53 \<and>
   clamp (- 1) 5 = 4 \<and> (- 1::int) + int 2 * 5 + 5 \<le> 2 ^ 53 \<and>
   clamp (- 1 + int 2 * 5) 5 = 4"
  using clamp_wraps_from_minus_len [of 5 "- 1" 2] by simp

section \<open>Opening a project from a trigger\<close>

text \<open>
  C2. The claim: a click on an opener whose index attribute is absent, non-numeric or out
  of range never raises. In the code only the absent attribute is defaulted (\<^verbatim>\<open>raw ?? 0\<close>);
  the number goes unchecked into \<^verbatim>\<open>projects[currentProject]\<close>, and \<^verbatim>\<open>buildSlides\<close> reads
  \<^verbatim>\<open>p.src\<close> of \<^verbatim>\<open>undefined\<close>. With the one project of the sample page, the attribute
  \<^verbatim>\<open>"7"\<close> (converted to 7), the attribute \<^verbatim>\<open>"abc"\<close> (converted to \<^verbatim>\<open>NaN\<close>) and, on a page
  with an empty payload, the absent attribute all end in a \<^verbatim>\<open>TypeError\<close>, with
  \<^verbatim>\<open>currentProject\<close> already overwritten.
\<close>

theorem opener_click_raises_TypeError:
  "opener_click (\<lambda>s. if s = ''7'' then Integer 7 else NonInteger) (Some ''7'')
       (sample_page [plain_project] (Some ''''))
     = Raised TypeError ((sample_page [plain_project] (Some ''''))\<lparr>currentProject := Integer 7\<rparr>) \<and>
   opener_click (\<lambda>s. if s = ''7'' then Integer 7 else NonInteger) (Some ''abc'')
       (sample_page [plain_project] (Some ''''))
     = Raised TypeError ((sample_page [plain_project] (Some ''''))\<lparr>currentProject := NonInteger\<rparr>) \<and>
   opener_click (\<lambda>s. if s = ''7'' then Integer 7 else NonInteger) None
       (sample_page [] (Some ''''))
     = Raised TypeError (sample_page [] (Some ''''))"
  by (simp add: opener_click_def openProject_def Let_def at_index_def sample_page_def)

section \<open>An empty slide list\<close>

text \<open>
  C3. For every integer \<open>i\<close>, \<^verbatim>\<open>clamp(i, 0)\<close> is 0, and with an empty slide list
  \<^verbatim>\<open>showSlide(i)\<close> returns the state it was given: \<^verbatim>\<open>currentSlide\<close> and everything
  rendered stay as they were, and nothing is raised.
\<close>

theorem showSlide_empty_noop:
  "clamp i 0 = 0 \<and> (slides st = [] \<longrightarrow> showSlide i st = st)"
  by (simp add: clamp_zero showSlide_not_shown not_shown_empty)

theorem showSlide_empty_noop_witness:
  "slides (sample_page [gallery_project] (Some ''old'')) = [] \<and>
   showSlide (- 3) (sample_page [gallery_project] (Some ''old''))
     = sample_page [gallery_project] (Some ''old'')"
proof -
  have e: "slides (sample_page [gallery_project] (Some ''old'')) = []"
    by (simp add: sample_page_def)
  from showSlide_empty_noop [of "- 3" "sample_page [gallery_project] (Some ''old'')"] e
  show ?thesis by simp
qed

section \<open>The slide index stays in range\<close>

text \<open>
  C4. In every state the controller can reach, and after each further operation on it
  (\<^verbatim>\<open>showSlide\<close> with any integer, \<^verbatim>\<open>next\<close>, \<^verbatim>\<open>prev\<close>, and \<^verbatim>\<open>openProject\<close> with a valid
  project index, which returns and leaves a non-empty slide list), \<^verbatim>\<open>currentSlide\<close> is an
  index in \<open>[0, slides.length)\<close> whenever the slide list is non-empty.
\<close>

theorem currentSlide_in_range:
  assumes "reachable st"
  shows "valid_index st \<and> valid_index (showSlide i st) \<and> valid_index (next st) \<and>
         valid_index (prev st) \<and>
         (0 \<le> k \<and> k < int (length (projects st)) \<longrightarrow>
            openProject (Integer k) st = Returned (opened (Integer k) st) \<and>
            slides (opened (Integer k) st) \<noteq> [] \<and> valid_index (opened (Integer k) st))"
proof -
  have v: "valid_index s" if "reachable s" for s
    using reachable_nav_inv [OF that] by (auto simp: nav_inv_def valid_index_def split: if_splits)
  have o: "openProject (Integer k) st = Returned (opened (Integer k) st)"
    if "0 \<le> k \<and> k < int (length (projects st))"
    using that by (intro openProject_opened [of _ _ "projects st ! nat k"]) (simp add: at_index_def)
  have s: "slides (opened (Integer k) st) \<noteq> []"
    if "0 \<le> k \<and> k < int (length (projects st))"
    using that
    by (simp add: opened_def openProject_Some [of _ _ "projects st ! nat k"] at_index_def
        showSlide_slides buildSlides_nonempty)
  show ?thesis
    using assms o s
    by (auto intro!: v intro: reachable.intros)
qed

theorem currentSlide_in_range_witness:
  "reachable (opened (Integer 0) (sample_page [gallery_project] (Some ''''))) \<and>
   slides (next (opened (Integer 0) (sample_page [gallery_project] (Some '''')))) \<noteq> [] \<and>
   valid_index (next (opened (Integer 0) (sample_page [gallery_project] (Some '''')))) \<and>
   (0::int) \<le> 0 \<and> (0::int) < int (length (projects (sample_page [gallery_project] (Some '''')))) \<and>
   valid_index (opened (Integer 0) (sample_page [gallery_project] (Some '''')))"
proof -
  let ?P = "sample_page [gallery_project] (Some '''')"
  have i: "reachable ?P" by (rule r_initial) (simp add: initial_def sample_page_def)
  have k: "(0::int) \<le> 0 \<and> (0::int) < int (length (projects ?P))" by (simp add: sample_page_def)
  from currentSlide_in_range [OF i, of 0 0] k
  have o: "openProject (Integer 0) ?P = Returned (opened (Integer 0) ?P)"
    and n: "slides (opened (Integer 0) ?P) \<noteq> []" and v: "valid_index (opened (Integer 0) ?P)"
    by simp_all
  have r: "reachable (opened (Integer 0) ?P)" using i o by (rule r_openProject)
  have "slides (next (opened (Integer 0) ?P)) \<noteq> []" using n by (simp add: next_def showSlide_slides)
  then show ?thesis using currentSlide_in_range [OF r, of 0 0] r k v by simp
qed

section \<open>Stepping forth and back\<close>

text \<open>
  C5. With a non-empty slide list and \<^verbatim>\<open>currentSlide\<close> in range, \<^verbatim>\<open>next()\<close> then \<^verbatim>\<open>prev()\<close>
  gives back the original \<^verbatim>\<open>currentSlide\<close>, and so does \<^verbatim>\<open>prev()\<close> then \<^verbatim>\<open>next()\<close>.
  With one slide both always yield index 0, however often they are called; with no slide
  both return the state unchanged, whose index is 0 in every reachable state.
\<close>

theorem next_prev_round_trip:
  "(slides st \<noteq> [] \<and> 0 \<le> currentSlide st \<and> currentSlide st < int (length (slides st)) \<longrightarrow>
      currentSlide (prev (next st)) = currentSlide st \<and>
      currentSlide (next (prev st)) = currentSlide st) \<and>
   (length (slides st) = 1 \<longrightarrow>
      currentSlide (next st) = 0 \<and> currentSlide (prev st) = 0 \<and>
      currentSlide (next (next st)) = 0 \<and> currentSlide (prev (prev st)) = 0) \<and>
   (slides st = [] \<longrightarrow>
      next st = st \<and> prev st = st \<and> (reachable st \<longrightarrow> currentSlide st = 0))"
proof (intro conjI impI)
  assume a: "slides st \<noteq> [] \<and> 0 \<le> currentSlide st \<and> currentSlide st < int (length (slides st))"
  define n where "n = int (length (slides st))"
  define c where "c = currentSlide st"
  have n: "0 < n" and c: "0 \<le> c" "c < n" using a by (simp_all add: n_def c_def)
  have sn: "shown (c + 1) st" and sp: "shown (c - 1) st"
    using a n c by (simp_all add: shown_in_range n_def)
  have cn: "currentSlide (next st) = (c + 1) mod n"
    using sn n c by (simp add: next_def showSlide_currentSlide clamp_mod c_def [symmetric] n_def [symmetric])
  have cp: "currentSlide (prev st) = (c - 1) mod n"
    using sp n c by (simp add: prev_def showSlide_currentSlide clamp_mod c_def [symmetric] n_def [symmetric])
  have ln: "int (length (slides (next st))) = n" and lp: "int (length (slides (prev st))) = n"
    by (simp_all add: next_def prev_def showSlide_slides n_def)
  have nn: "slides (next st) \<noteq> []" and np: "slides (prev st) \<noteq> []"
    using a by (simp_all add: next_def prev_def showSlide_slides)
  have z1: "0 \<le> (c + 1) mod n" and z2: "0 \<le> (c - 1) mod n" using n by simp_all
  have b1: "- int (length (slides (next st))) \<le> (c + 1) mod n - 1"
    and b2: "- int (length (slides (prev st))) \<le> (c - 1) mod n + 1"
    unfolding ln lp using z1 z2 n by linarith+
  have s1: "shown ((c + 1) mod n - 1) (next st)" using nn b1 by (rule shown_in_range)
  have s2: "shown ((c - 1) mod n + 1) (prev st)" using np b2 by (rule shown_in_range)
  have k1: "clamp ((c + 1) mod n - 1) n = ((c + 1) mod n - 1) mod n"
    and k2: "clamp ((c - 1) mod n + 1) n = ((c - 1) mod n + 1) mod n"
    using n b1 b2 unfolding ln lp by (simp_all only: clamp_mod)
  have "currentSlide (prev (next st)) = ((c + 1) mod n - 1) mod n"
    using s1 by (simp add: prev_def [of "next st"] showSlide_currentSlide cn ln k1)
  also have "\<dots> = c" using c by (simp add: mod_diff_left_eq)
  finally show "currentSlide (prev (next st)) = currentSlide st" by (simp add: c_def)
  have "currentSlide (next (prev st)) = ((c - 1) mod n + 1) mod n"
    using s2 by (simp add: next_def [of "prev st"] showSlide_currentSlide cp lp k2)
  also have "\<dots> = c" using c by (simp add: mod_add_left_eq)
  finally show "currentSlide (next (prev st)) = currentSlide st" by (simp add: c_def)
next
  assume l: "length (slides st) = 1"
  have one: "currentSlide (showSlide j s) = 0" if "length (slides s) = 1" for j s
    using that by (simp add: showSlide_currentSlide shown_def clamp_def js_rem_def)
  have keep: "length (slides (showSlide j s)) = 1" if "length (slides s) = 1" for j s
    using that by (simp add: showSlide_slides)
  show "currentSlide (next st) = 0" using l by (simp add: next_def one)
  show "currentSlide (prev st) = 0" using l by (simp add: prev_def one)
  have ln1: "length (slides (next st)) = 1" and lp1: "length (slides (prev st)) = 1"
    using l by (simp_all add: next_def prev_def keep)
  show "currentSlide (next (next st)) = 0"
    unfolding next_def [of "next st"] using ln1 by (rule one)
  show "currentSlide (prev (prev st)) = 0"
    unfolding prev_def [of "prev st"] using lp1 by (rule one)
next
  assume e: "slides st = []"
  show "next st = st" using e by (simp add: next_def showSlide_not_shown not_shown_empty)
  show "prev st = st" using e by (simp add: prev_def showSlide_not_shown not_shown_empty)
  show "currentSlide st = 0" if "reachable st"
    using reachable_nav_inv [OF that] e by (simp add: nav_inv_def)
qed

theorem next_prev_round_trip_witness:
  "slides (opened (Integer 0) (sample_page [gallery_project, plain_project] (Some ''''))) \<noteq> [] \<and>
   currentSlide (opened (Integer 0) (sample_page [gallery_project, plain_project] (Some ''''))) = 0 \<and>
   length (slides (opened (Integer 0) (sample_page [gallery_project, plain_project] (Some '''')))) = 3 \<and>
   currentSlide (prev (next (opened (Integer 0)
       (sample_page [gallery_project, plain_project] (Some ''''))))) = 0 \<and>
   currentSlide (next (prev (opened (Integer 0)
       (sample_page [gallery_project, plain_project] (Some ''''))))) = 0 \<and>
   length (slides (opened (Integer 1) (sample_page [gallery_project, plain_project] (Some '''')))) = 1 \<and>
   currentSlide (next (opened (Integer 1)
       (sample_page [gallery_project, plain_project] (Some '''')))) = 0 \<and>
   slides (sample_page [gallery_project, plain_project] (Some '''')) = [] \<and>
   reachable (sample_page [gallery_project, plain_project] (Some '''')) \<and>
   next (sample_page [gallery_project, plain_project] (Some ''''))
     = sample_page [gallery_project, plain_project] (Some '''') \<and>
   currentSlide (next (sample_page [gallery_project, plain_project] (Some ''''))) = 0"
proof -
  let ?P = "sample_page [gallery_project, plain_project] (Some '''')"
  have a: "slides (opened (Integer 0) ?P) \<noteq> []" "currentSlide (opened (Integer 0) ?P) = 0"
    "length (slides (opened (Integer 0) ?P)) = 3"
    by (simp_all add: opened_fields [OF sample_lookup(1)] sample_lengths buildSlides_nonempty)
  have b: "length (slides (opened (Integer 1) ?P)) = 1"
    by (simp add: opened_fields [OF sample_lookup(2)] sample_lengths)
  have c: "slides ?P = []" by (simp add: sample_page_def)
  show ?thesis
    using next_prev_round_trip [of "opened (Integer 0) ?P"]
      next_prev_round_trip [of "opened (Integer 1) ?P"] next_prev_round_trip [of ?P] a b c
      sample_reachable [of "[gallery_project, plain_project]" "Some []"]
    by simp
qed

section \<open>Building the slides of a project\<close>

text \<open>
  C6. \<^verbatim>\<open>buildSlides(p)\<close> is a function of \<open>p\<close> alone. Its first element is
  \<^verbatim>\<open>{src: p.src, alt: p.alt, detail: p.detail}\<close>; the elements after it are the entries of
  \<open>p\<close>'s gallery, in order (none when \<open>p\<close> has no gallery), each with its own source, and
  with the \<^verbatim>\<open>alt\<close> and the \<^verbatim>\<open>detail\<close> of the entry when it has them and those of the
  project otherwise.
\<close>

theorem buildSlides_elements:
  "buildSlides p ! 0 = \<lparr>slide_src = proj_src p, slide_alt = proj_alt p,
                         slide_detail = Some (proj_detail p)\<rparr> \<and>
   (proj_gallery p = None \<longrightarrow> length (buildSlides p) = 1) \<and>
   (\<forall>gs. proj_gallery p = Some gs \<longrightarrow>
      length (buildSlides p) = 1 + length gs \<and>
      (\<forall>j < length gs.
         slide_src (buildSlides p ! (j + 1)) = sub_src (gs ! j) \<and>
         (\<forall>a. sub_alt (gs ! j) = Some a \<longrightarrow> slide_alt (buildSlides p ! (j + 1)) = a) \<and>
         (sub_alt (gs ! j) = None \<longrightarrow> slide_alt (buildSlides p ! (j + 1)) = proj_alt p) \<and>
         (\<forall>d. sub_detail (gs ! j) = Some d \<longrightarrow> slide_detail (buildSlides p ! (j + 1)) = Some d) \<and>
         (sub_detail (gs ! j) = None \<longrightarrow>
            slide_detail (buildSlides p ! (j + 1)) = Some (proj_detail p))))"
  by (simp add: buildSlides_def Let_def)

theorem buildSlides_elements_witness:
  "proj_gallery gallery_project
     = Some [\<lparr>sub_src = ''a1.jpg'', sub_alt = None, sub_detail = Some ''<b>One</b>''\<rparr>,
             \<lparr>sub_src = ''a2.jpg'', sub_alt = Some ''Second'', sub_detail = None\<rparr>] \<and>
   length (buildSlides gallery_project) = 3 \<and>
   slide_src (buildSlides gallery_project ! 1) = ''a1.jpg'' \<and>
   slide_alt (buildSlides gallery_project ! 1) = proj_alt gallery_project \<and>
   slide_detail (buildSlides gallery_project ! 1) = Some ''<b>One</b>'' \<and>
   slide_src (buildSlides gallery_project ! 2) = ''a2.jpg'' \<and>
   slide_alt (buildSlides gallery_project ! 2) = ''Second'' \<and>
   slide_detail (buildSlides gallery_project ! 2) = Some (proj_detail gallery_project) \<and>
   proj_gallery plain_project = None \<and> length (buildSlides plain_project) = 1"
proof -
  let ?gs = "[\<lparr>sub_src = ''a1.jpg'', sub_alt = None, sub_detail = Some ''<b>One</b>''\<rparr>,
              \<lparr>sub_src = ''a2.jpg'', sub_alt = Some ''Second'', sub_detail = None\<rparr>]"
  have g: "proj_gallery gallery_project = Some ?gs" by (simp add: gallery_project_def)
  have n: "proj_gallery plain_project = None" by (simp add: plain_project_def)
  note e = buildSlides_elements [of gallery_project, THEN conjunct2, THEN conjunct2,
      rule_format, OF g]
  have l: "length (buildSlides gallery_project) = 3" using e [THEN conjunct1] by simp
  have e0: "(0::nat) < length ?gs" and e1: "(1::nat) < length ?gs" by simp_all
  note s0 = e [THEN conjunct2, rule_format, OF e0]
  note s1 = e [THEN conjunct2, rule_format, OF e1]
  have p: "length (buildSlides plain_project) = 1"
    using buildSlides_elements [of plain_project] n by simp
  show ?thesis using g n l p s0 s1 by (simp add: numeral_2_eq_2)
qed

section \<open>Opening a project\<close>

text \<open>
  C7. For every valid project index \<open>k\<close>, \<^verbatim>\<open>openProject(k)\<close> returns, and in the state it
  leaves \<^verbatim>\<open>currentProject\<close> is \<open>k\<close>, \<^verbatim>\<open>slides\<close> is \<^verbatim>\<open>buildSlides(projects[k])\<close> and
  \<^verbatim>\<open>currentSlide\<close> is 0.
\<close>

theorem openProject_resets:
  assumes "0 \<le> k" and "k < int (length (projects st))"
  shows "\<exists>st'. openProject (Integer k) st = Returned st' \<and>
               currentProject st' = Integer k \<and>
               slides st' = buildSlides (projects st ! nat k) \<and>
               currentSlide st' = 0 \<and> projects st' = projects st"
proof -
  have l: "at_number (projects st) (Integer k) = Some (projects st ! nat k)"
    using assms by (simp add: at_index_def)
  show ?thesis
    using openProject_opened [OF l] opened_fields [OF l] by simp
qed

theorem openProject_resets_witness:
  "(0::int) \<le> 1 \<and> 1 < int (length (projects (sample_page [gallery_project, plain_project] None))) \<and>
   (\<exists>st'. openProject (Integer 1) (sample_page [gallery_project, plain_project] None)
             = Returned st' \<and>
           currentProject st' = Integer 1 \<and> slides st' = buildSlides plain_project \<and>
           currentSlide st' = 0)"
proof -
  have h: "(0::int) \<le> 1"
    "1 < int (length (projects (sample_page [gallery_project, plain_project] None)))"
    by (simp_all add: sample_page_def)
  have p: "projects (sample_page [gallery_project, plain_project] None) ! nat 1 = plain_project"
    by (simp add: sample_page_def)
  from openProject_resets [OF h] show ?thesis using h unfolding p by blast
qed

section \<open>The progress indicator\<close>

text \<open>
  C8. The claim: after every \<^verbatim>\<open>showSlide\<close> the progress text is
  \<^verbatim>\<open>"<currentSlide+1> / <slides.length>"\<close> when there is more than one slide and the empty
  string when \<open>slides.length \<le> 1\<close>. With no slides \<^verbatim>\<open>showSlide\<close> returns at
  \<^verbatim>\<open>if (!s) return\<close> before \<^verbatim>\<open>updateProgress\<close> runs, so a progress element that the page
  delivers with the text \<^verbatim>\<open>old\<close> still reads \<^verbatim>\<open>old\<close>.
\<close>

theorem showSlide_progress_counterexample:
  "length (slides (showSlide 0 (sample_page [gallery_project] (Some ''old'')))) \<le> 1 \<and>
   progress (showSlide 0 (sample_page [gallery_project] (Some ''old''))) = Some ''old'' \<and>
   progress (showSlide 0 (sample_page [gallery_project] (Some ''old''))) \<noteq> Some ''''"
proof -
  have "slides (sample_page [gallery_project] (Some ''old'')) = []"
    by (simp add: sample_page_def)
  then have "showSlide 0 (sample_page [gallery_project] (Some ''old''))
               = sample_page [gallery_project] (Some ''old'')"
    by (simp add: showSlide_not_shown not_shown_empty)
  then show ?thesis by (simp add: sample_page_def)
qed

text \<open>
  C8, as the code has it: in every state the controller can reach, with a non-empty slide
  list and a progress element on the page, after \<^verbatim>\<open>showSlide\<close> with any integer the
  progress text is \<^verbatim>\<open>"<currentSlide+1> / <slides.length>"\<close> when there is more than one
  slide and the empty string when there is exactly one. With an empty slide list
  \<^verbatim>\<open>showSlide\<close> leaves the progress text as it was, and a page without a progress element
  stays without one.
\<close>

theorem showSlide_progress_text:
  "(reachable st \<and> slides st \<noteq> [] \<and> progress st \<noteq> None \<longrightarrow>
      progress (showSlide i st) =
        Some (if length (slides (showSlide i st)) > 1
              then show_int (currentSlide (showSlide i st) + 1) @ '' / ''
                     @ show_nat (length (slides (showSlide i st)))
              else '''')) \<and>
   (slides st = [] \<longrightarrow> progress (showSlide i st) = progress st) \<and>
   (progress st = None \<longrightarrow> progress (showSlide i st) = None)"
proof (intro conjI impI)
  assume a: "reachable st \<and> slides st \<noteq> [] \<and> progress st \<noteq> None"
  then have inv: "nav_inv st" by (simp add: reachable_nav_inv)
  show "progress (showSlide i st) =
        Some (if length (slides (showSlide i st)) > 1
              then show_int (currentSlide (showSlide i st) + 1) @ '' / ''
                     @ show_nat (length (slides (showSlide i st)))
              else '''')"
  proof (cases "shown i st")
    case True
    with a show ?thesis
      by (simp add: showSlide_progress showSlide_currentSlide showSlide_slides
          spec_progress_text_def)
  next
    case False
    with a inv show ?thesis
      by (auto simp: showSlide_not_shown nav_inv_def spec_progress_text_def)
  qed
next
  assume "slides st = []"
  then show "progress (showSlide i st) = progress st"
    by (simp add: showSlide_not_shown not_shown_empty)
next
  assume "progress st = None"
  then show "progress (showSlide i st) = None" by (simp add: showSlide_progress)
qed

theorem showSlide_progress_text_witness:
  "reachable (opened (Integer 0) (sample_page [five_project] (Some ''''))) \<and>
   slides (opened (Integer 0) (sample_page [five_project] (Some ''''))) \<noteq> [] \<and>
   progress (opened (Integer 0) (sample_page [five_project] (Some ''''))) \<noteq> None \<and>
   currentSlide (showSlide 1 (opened (Integer 0) (sample_page [five_project] (Some '''')))) = 1 \<and>
   length (slides (showSlide 1 (opened (Integer 0) (sample_page [five_project] (Some ''''))))) = 5 \<and>
   progress (showSlide 1 (opened (Integer 0) (sample_page [five_project] (Some ''''))))
     = Some ''2 / 5'' \<and>
   slides (sample_page [five_project] None) = [] \<and>
   progress (sample_page [five_project] None) = None \<and>
   progress (showSlide 1 (sample_page [five_project] None)) = None"
proof -
  let ?P = "sample_page [five_project] (Some '''')"
  let ?S = "opened (Integer 0) ?P"
  let ?N = "sample_page [five_project] None"
  have r: "reachable ?S"
    using sample_reachable openProject_opened [OF sample_lookup(3)] by (rule r_openProject)
  have s: "slides ?S \<noteq> []" "length (slides ?S) = 5" "currentSlide ?S = 0"
    by (simp_all add: opened_fields [OF sample_lookup(3)] buildSlides_nonempty sample_lengths)
  have "progress ?P = Some []" by (simp add: sample_page_def)
  then have p: "progress ?S \<noteq> None"
    by (simp add: opened_progress [OF sample_lookup(3)])
  have sh: "shown 1 ?S" using s(1) by (rule shown_in_range) simp
  have c: "currentSlide (showSlide 1 ?S) = 1"
    using sh s(2) by (simp add: showSlide_currentSlide clamp_mod)
  have l: "length (slides (showSlide 1 ?S)) = 5" using s(2) by (simp add: showSlide_slides)
  have n: "slides ?N = []" "progress ?N = None" by (simp_all add: sample_page_def)
  have d: "show_int 2 = ''2''" "show_nat 5 = ''5''"
    by (simp_all add: show_int_def show_nat.simps digit_char_def)
  show ?thesis
    using showSlide_progress_text [of ?S 1] showSlide_progress_text [of ?N 1] r s(1) p c l n
    by (simp add: d)
qed

section \<open>Touch gestures\<close>

text \<open>
  C9. For a touch that starts at \<open>(sx, sy)\<close> and ends at \<open>(ex, ey)\<close>, with \<open>dx\<close> and
  \<open>dy\<close> the differences \<^verbatim>\<open>ex - sx\<close> and \<^verbatim>\<open>ey - sy\<close> as the handler computes them
  (\<open>sub ex sx\<close> and \<open>sub ey sy\<close>, for whatever the subtraction of doubles \<open>sub\<close> is): the
  handler clears the touch flag and then calls \<^verbatim>\<open>next()\<close> when \<open>|dx| > 40\<close>,
  \<open>|dx| > |dy|\<close> and \<open>dx < 0\<close>, calls \<^verbatim>\<open>prev()\<close> when \<open>|dx| > 40\<close>, \<open>|dx| > |dy|\<close>
  and \<open>dx > 0\<close>, and calls neither in every other case; so a navigation is triggered if
  and only if \<open>|dx| > 40\<close> and \<open>|dx| > |dy|\<close>.
\<close>

theorem touch_gesture_navigates:
  "(swipe_command (sub ex sx) (sub ey sy) = Some Next \<longleftrightarrow>
      \<bar>sub ex sx\<bar> > 40 \<and> \<bar>sub ex sx\<bar> > \<bar>sub ey sy\<bar> \<and> sub ex sx < 0) \<and>
   (swipe_command (sub ex sx) (sub ey sy) = Some Prev \<longleftrightarrow>
      \<bar>sub ex sx\<bar> > 40 \<and> \<bar>sub ex sx\<bar> > \<bar>sub ey sy\<bar> \<and> sub ex sx > 0) \<and>
   (swipe_command (sub ex sx) (sub ey sy) \<noteq> None \<longleftrightarrow>
      \<bar>sub ex sx\<bar> > 40 \<and> \<bar>sub ex sx\<bar> > \<bar>sub ey sy\<bar>) \<and>
   touchend sub ex ey (touchstart sx sy st) =
     (case swipe_command (sub ex sx) (sub ey sy) of
        None \<Rightarrow> st\<lparr>startX := sx, startY := sy, touching := False\<rparr>
      | Some Next \<Rightarrow> next (st\<lparr>startX := sx, startY := sy, touching := False\<rparr>)
      | Some Prev \<Rightarrow> prev (st\<lparr>startX := sx, startY := sy, touching := False\<rparr>))"
  by (auto simp: swipe_command_def touchend_def touchstart_def run_command_def Let_def
      split: option.splits command.splits)

text \<open>
  The gestures of the specification, on the sample project of three slides opened at its
  first slide: from \<open>(100, 100)\<close> to \<open>(40, 105)\<close> the handler calls \<^verbatim>\<open>next()\<close> and the second
  slide shows; to \<open>(100, 130)\<close> it calls neither and the first slide stays; to
  \<open>(160, 130)\<close> it calls \<^verbatim>\<open>prev()\<close> and the last slide shows.
\<close>

theorem touch_gesture_navigates_witness:
  "integer_sub 40 100 = - 60 \<and> integer_sub 105 100 = 5 \<and>
   touchend integer_sub 40 105
       (touchstart 100 100 (opened (Integer 0) (sample_page [gallery_project] None)))
     = next ((opened (Integer 0) (sample_page [gallery_project] None))
               \<lparr>startX := 100, startY := 100, touching := False\<rparr>) \<and>
   currentSlide (touchend integer_sub 40 105
       (touchstart 100 100 (opened (Integer 0) (sample_page [gallery_project] None)))) = 1 \<and>
   integer_sub 100 100 = 0 \<and> integer_sub 130 100 = 30 \<and>
   touchend integer_sub 100 130
       (touchstart 100 100 (opened (Integer 0) (sample_page [gallery_project] None)))
     = (opened (Integer 0) (sample_page [gallery_project] None))
         \<lparr>startX := 100, startY := 100, touching := False\<rparr> \<and>
   currentSlide (touchend integer_sub 100 130
       (touchstart 100 100 (opened (Integer 0) (sample_page [gallery_project] None)))) = 0 \<and>
   integer_sub 160 100 = 60 \<and>
   touchend integer_sub 160 130
       (touchstart 100 100 (opened (Integer 0) (sample_page [gallery_project] None)))
     = prev ((opened (Integer 0) (sample_page [gallery_project] None))
               \<lparr>startX := 100, startY := 100, touching := False\<rparr>) \<and>
   currentSlide (touchend integer_sub 160 130
       (touchstart 100 100 (opened (Integer 0) (sample_page [gallery_project] None)))) = 2"
proof -
  let ?S = "opened (Integer 0) (sample_page [gallery_project] None)"
  let ?T = "?S\<lparr>startX := 100, startY := 100, touching := False\<rparr>"
  have d: "integer_sub 40 100 = - 60" "integer_sub 105 100 = 5" "integer_sub 100 100 = 0"
    "integer_sub 130 100 = 30" "integer_sub 160 100 = 60"
    by (simp_all add: integer_sub_def)
  have l: "at_number (projects (sample_page [gallery_project] None)) (Integer 0)
             = Some gallery_project"
    by (simp add: sample_page_def at_index_def)
  have s: "slides ?T \<noteq> []" "int (length (slides ?T)) = 3" "currentSlide ?T = 0"
    by (simp_all add: opened_fields [OF l] sample_lengths buildSlides_nonempty)
  have n: "currentSlide (next ?T) = 1"
    unfolding next_def using shown_in_range [OF s(1), of "currentSlide ?T + 1"] s(2,3)
    by (simp add: showSlide_currentSlide clamp_mod)
  have p: "currentSlide (prev ?T) = 2"
    unfolding prev_def using shown_in_range [OF s(1), of "currentSlide ?T - 1"] s(2,3)
    by (simp add: showSlide_currentSlide clamp_mod)
  have c: "currentSlide ?T = 0" by (rule s(3))
  have g1: "touchend integer_sub 40 105 (touchstart 100 100 ?S) = next ?T"
    using touch_gesture_navigates [of integer_sub 40 100 105 100 ?S] by (simp add: d)
  have g2: "touchend integer_sub 100 130 (touchstart 100 100 ?S) = ?T"
    using touch_gesture_navigates [of integer_sub 100 100 130 100 ?S] by (simp add: d)
  have g3: "touchend integer_sub 160 130 (touchstart 100 100 ?S) = prev ?T"
    using touch_gesture_navigates [of integer_sub 160 100 130 100 ?S] by (simp add: d)
  show ?thesis unfolding g1 g2 g3 using d n p c by simp
qed

section \<open>Closing the modal\<close>

text \<open>
  C10. \<^verbatim>\<open>closeModal\<close> leaves \<^verbatim>\<open>projects\<close>, \<^verbatim>\<open>currentProject\<close>, \<^verbatim>\<open>slides\<close> and
  \<^verbatim>\<open>currentSlide\<close> as they were: it writes the modal's \<^verbatim>\<open>hidden\<close> class and
  \<^verbatim>\<open>aria-hidden\<close>, the two scroll locks and the focus, and nothing else.
\<close>

theorem closeModal_keeps_navigation:
  "projects (closeModal st) = projects st \<and>
   currentProject (closeModal st) = currentProject st \<and>
   slides (closeModal st) = slides st \<and>
   currentSlide (closeModal st) = currentSlide st \<and>
   closeModal st =
     st\<lparr>modal_hidden := True, modal_aria_hidden := ''true'',
        html_overflow := [], body_overflow := [],
        activeElement := (case lastFocused st of None \<Rightarrow> activeElement st
                          | Some e \<Rightarrow> Some e)\<rparr>"
  by (simp add: closeModal_def Let_def lockScroll_def split: option.splits)

end
